theory Spec2Isabelle
  imports Complex_Main
begin

section \<open>JavaScript values\<close>

text \<open>
  The values the server code handles: what \<^verbatim>\<open>JSON.parse\<close> can produce (null, booleans,
  numbers, strings, arrays, objects), \<^verbatim>\<open>undefined\<close> (a property that is not there), and
  \<open>JBuiltin\<close>: a function or object that belongs to the runtime, named by where it lives.
  An object is the list of its own properties. A number is a rational: the code only asks
  whether it is zero.
\<close>

datatype jsval =
    JUndefined
  | JNull
  | JBool bool
  | JNum rat
  | JStr string
  | JArr "jsval list"
  | JObj "(string \<times> jsval) list"
  | JBuiltin string

text \<open>What \<^verbatim>\<open>!v\<close>, \<^verbatim>\<open>a || b\<close> and \<^verbatim>\<open>if (v)\<close> test.\<close>

fun truthy :: "jsval \<Rightarrow> bool" where
  "truthy JUndefined = False"
| "truthy JNull = False"
| "truthy (JBool b) = b"
| "truthy (JNum n) = (n \<noteq> 0)"
| "truthy (JStr s) = (s \<noteq> [])"
| "truthy (JArr xs) = True"
| "truthy (JObj ps) = True"
| "truthy (JBuiltin f) = True"

text \<open>\<^verbatim>\<open>a || b\<close> on values already computed.\<close>

definition js_or :: "jsval \<Rightarrow> jsval \<Rightarrow> jsval" where
  "js_or a b = (if truthy a then a else b)"

text \<open>
  A value that has been thrown: an instance of \<^verbatim>\<open>Error\<close> with its message (which covers
  \<^verbatim>\<open>TypeError\<close>, \<^verbatim>\<open>SyntaxError\<close> and the shell's own error class), or any other value.
\<close>

datatype thrown = ErrorInstance string | NonError jsval

text \<open>
  Every object written as a literal or produced by \<^verbatim>\<open>JSON.parse\<close> inherits from
  \<^verbatim>\<open>Object.prototype\<close>. These are its properties: eleven functions and the
  \<^verbatim>\<open>__proto__\<close> accessor, which gives \<^verbatim>\<open>Object.prototype\<close> itself.
\<close>

definition object_prototype :: "(string \<times> jsval) list" where
  "object_prototype =
    [(''constructor'', JBuiltin ''Object''),
     (''__defineGetter__'', JBuiltin ''Object.prototype.__defineGetter__''),
     (''__defineSetter__'', JBuiltin ''Object.prototype.__defineSetter__''),
     (''hasOwnProperty'', JBuiltin ''Object.prototype.hasOwnProperty''),
     (''__lookupGetter__'', JBuiltin ''Object.prototype.__lookupGetter__''),
     (''__lookupSetter__'', JBuiltin ''Object.prototype.__lookupSetter__''),
     (''isPrototypeOf'', JBuiltin ''Object.prototype.isPrototypeOf''),
     (''propertyIsEnumerable'', JBuiltin ''Object.prototype.propertyIsEnumerable''),
     (''toString'', JBuiltin ''Object.prototype.toString''),
     (''valueOf'', JBuiltin ''Object.prototype.valueOf''),
     (''__proto__'', JBuiltin ''Object.prototype''),
     (''toLocaleString'', JBuiltin ''Object.prototype.toLocaleString'')]"

definition inherited_names :: "string list" where
  "inherited_names = map fst object_prototype"

text \<open>\<^verbatim>\<open>obj[key]\<close> on an ordinary object: its own property, else the inherited one, else
  \<^verbatim>\<open>undefined\<close>.\<close>

definition index_object :: "(string \<times> jsval) list \<Rightarrow> string \<Rightarrow> jsval" where
  "index_object props k =
    (case map_of props k of
       Some v \<Rightarrow> v
     | None \<Rightarrow> (case map_of object_prototype k of Some v \<Rightarrow> v | None \<Rightarrow> JUndefined))"

section \<open>The process and its surroundings\<close>

text \<open>
  One run of the external tool, as the code writes it:
  \<open>ItemGet name\<close> is \<^verbatim>\<open>pass-cli item get ${name} --format json\<close> and
  \<open>Login e\<close> is \<^verbatim>\<open>pass-cli login ${process.env.PROTON_EMAIL}\<close> with \<open>e\<close> the variable's value.
\<close>

datatype cli_call = ItemGet string | Login "string option"

text \<open>A line on the console: \<^verbatim>\<open>console.log(text)\<close> or \<^verbatim>\<open>console.error(text, error)\<close>.\<close>

datatype log_line = ConsoleLog string | ConsoleError string thrown

text \<open>What the code changes outside itself: the console and the runs of the external tool.\<close>

record world =
  console :: "log_line list"
  cli_calls :: "cli_call list"

text \<open>
  The object handed to \<^verbatim>\<open>serve\<close>: \<open>port_text\<close> is the argument of \<^verbatim>\<open>parseInt\<close>,
  \<open>bundle_path\<close> the \<^verbatim>\<open>configPath\<close> that \<^verbatim>\<open>fetch\<close> closes over.
\<close>

record serve_options =
  port_text :: string
  hostname :: string
  bundle_path :: string

text \<open>
  What the code reads from outside itself. \<open>process_env\<close> is \<^verbatim>\<open>process.env\<close>.
  \<open>pass_cli_item_get\<close> is the outcome of awaiting
  \<^verbatim>\<open>$`pass-cli item get ${name} --format json`.json()\<close>: the parsed output, or what was
  thrown (non-zero exit, output that is not JSON); it may depend on the runs made before.
  \<open>pass_cli_login\<close> is the outcome of awaiting the login command: \<open>None\<close> when it succeeds,
  else what was thrown. \<open>null_read_message\<close> is the message of the \<^verbatim>\<open>TypeError\<close> the engine
  raises when a property of \<^verbatim>\<open>null\<close> is read. \<open>existsSync\<close> is the file-system test and
  \<open>local_bundle_path\<close> is \<^verbatim>\<open>resolve(import.meta.dir, '../../config/dist/bundle.js')\<close>.
  \<open>bun_serve\<close> is the outcome of \<^verbatim>\<open>serve\<close> on its options: \<open>None\<close> when the server is bound
  and listening, else what \<^verbatim>\<open>serve\<close> threw (a port that is no number, out of range or in
  use).
\<close>

record runtime =
  process_env :: "string \<Rightarrow> string option"
  pass_cli_item_get :: "cli_call list \<Rightarrow> string \<Rightarrow> thrown + jsval"
  pass_cli_login :: "cli_call list \<Rightarrow> string option \<Rightarrow> thrown option"
  null_read_message :: string
  existsSync :: "string \<Rightarrow> bool"
  local_bundle_path :: string
  bun_serve :: "serve_options \<Rightarrow> thrown option"

text \<open>\<^verbatim>\<open>process.env.TEST_MODE === 'true'\<close>\<close>

definition test_mode :: "runtime \<Rightarrow> bool" where
  "test_mode rt = (process_env rt ''TEST_MODE'' = Some ''true'')"

section \<open>Reading properties\<close>

text \<open>
  \<^verbatim>\<open>v.k\<close>: a \<^verbatim>\<open>TypeError\<close> on \<^verbatim>\<open>null\<close> and \<^verbatim>\<open>undefined\<close>, \<open>index_object\<close> on an object.
  On a boolean, number, string, array or built-in the result is \<^verbatim>\<open>undefined\<close> for the
  names this program reads (\<^verbatim>\<open>data\<close>, \<^verbatim>\<open>content\<close>, \<^verbatim>\<open>itemData\<close>, \<^verbatim>\<open>password\<close>,
  \<^verbatim>\<open>text\<close>): no built-in prototype defines one of them.
\<close>

fun read_prop :: "runtime \<Rightarrow> jsval \<Rightarrow> string \<Rightarrow> thrown + jsval" where
  "read_prop rt JNull k = Inl (ErrorInstance (null_read_message rt))"
| "read_prop rt JUndefined k = Inl (ErrorInstance (null_read_message rt))"
| "read_prop rt (JObj ps) k = Inr (index_object ps k)"
| "read_prop rt v k = Inr JUndefined"

text \<open>\<^verbatim>\<open>e.k\<close> where evaluating \<^verbatim>\<open>e\<close> may already have thrown.\<close>

definition then_read :: "thrown + jsval \<Rightarrow> runtime \<Rightarrow> string \<Rightarrow> thrown + jsval" where
  "then_read r rt k = (case r of Inl e \<Rightarrow> Inl e | Inr v \<Rightarrow> read_prop rt v k)"

text \<open>\<^verbatim>\<open>e?.k\<close>: \<^verbatim>\<open>undefined\<close> when \<^verbatim>\<open>e\<close> is \<^verbatim>\<open>null\<close> or \<^verbatim>\<open>undefined\<close>.\<close>

definition then_opt_read :: "thrown + jsval \<Rightarrow> runtime \<Rightarrow> string \<Rightarrow> thrown + jsval" where
  "then_opt_read r rt k =
    (case r of
       Inl e \<Rightarrow> Inl e
     | Inr v \<Rightarrow> (if v = JNull \<or> v = JUndefined then Inr JUndefined else read_prop rt v k))"

section \<open>The credential gateway (lib/proton-pass.ts)\<close>

definition mockSecrets :: "(string \<times> jsval) list" where
  "mockSecrets =
    [(''openrouter-api-key'', JStr ''test-api-key-12345''),
     (''test-secret'', JStr ''test-value'')]"

text \<open>\<^verbatim>\<open>`Secret '${name}' not found in Proton Pass`\<close>\<close>

definition not_found_message :: "string \<Rightarrow> string" where
  "not_found_message name =
    ''Secret '' @ [CHR 0x27] @ name @ [CHR 0x27] @ '' not found in Proton Pass''"

text \<open>\<^verbatim>\<open>result.data?.content?.itemData\<close>\<close>

definition item_data_opt :: "runtime \<Rightarrow> jsval \<Rightarrow> thrown + jsval" where
  "item_data_opt rt result =
    then_opt_read (then_opt_read (read_prop rt result ''data'') rt ''content'') rt ''itemData''"

text \<open>\<^verbatim>\<open>result.data.content.itemData.k\<close>\<close>

definition item_data_field :: "runtime \<Rightarrow> jsval \<Rightarrow> string \<Rightarrow> thrown + jsval" where
  "item_data_field rt result k =
    then_read (then_read (then_read (read_prop rt result ''data'') rt ''content'') rt ''itemData'')
      rt k"

text \<open>The part of \<^verbatim>\<open>getSecret\<close> after the external tool has answered.\<close>

definition extract_secret :: "runtime \<Rightarrow> string \<Rightarrow> jsval \<Rightarrow> thrown + jsval" where
  "extract_secret rt name result =
    (case item_data_opt rt result of
       Inl e \<Rightarrow> Inl e
     | Inr i \<Rightarrow>
         if \<not> truthy i then Inl (ErrorInstance (not_found_message name))
         else
           (case item_data_field rt result ''password'' of
              Inl e \<Rightarrow> Inl e
            | Inr p \<Rightarrow>
                if truthy p then Inr p
                else
                  (case item_data_field rt result ''text'' of
                     Inl e \<Rightarrow> Inl e
                   | Inr t \<Rightarrow> Inr (js_or t (JStr '''')))))"

text \<open>
  \<^verbatim>\<open>getSecret(name)\<close>: the value the promise resolves to (\<open>Inr\<close>) or is rejected with
  (\<open>Inl\<close>), and the world afterwards.
\<close>

definition getSecret :: "runtime \<Rightarrow> string \<Rightarrow> world \<Rightarrow> (thrown + jsval) \<times> world" where
  "getSecret rt name w =
    (if process_env rt ''TEST_MODE'' = Some ''true'' then
       (Inr (js_or (index_object mockSecrets name) (JStr '''')), w)
     else
       (case pass_cli_item_get rt (cli_calls w) name of
          Inl e \<Rightarrow> (Inl e, w\<lparr>cli_calls := cli_calls w @ [ItemGet name]\<rparr>)
        | Inr result \<Rightarrow>
            (extract_secret rt name result, w\<lparr>cli_calls := cli_calls w @ [ItemGet name]\<rparr>)))"

section \<open>The secret route handler (routes/secrets.ts)\<close>

text \<open>
  A response as the code builds it. \<open>JsonBody v\<close> is the value handed to
  \<^verbatim>\<open>Response.json\<close>, which the runtime serialises; \<open>TextBody\<close> is a string body;
  \<open>FileBody p\<close> is \<^verbatim>\<open>Bun.file(p)\<close>. \<open>headers\<close> are the headers the code passes itself.
\<close>

datatype body = JsonBody jsval | TextBody string | FileBody string

record response =
  status :: nat
  body :: body
  headers :: "(string \<times> string) list"

text \<open>\<^verbatim>\<open>Response.json(data, { status })\<close>\<close>

definition Response_json :: "jsval \<Rightarrow> nat \<Rightarrow> response" where
  "Response_json data st = \<lparr>status = st, body = JsonBody data, headers = []\<rparr>"

text \<open>\<^verbatim>\<open>error instanceof Error ? error.message : 'Unknown error'\<close>\<close>

fun error_text :: "thrown \<Rightarrow> string" where
  "error_text (ErrorInstance m) = m"
| "error_text (NonError v) = ''Unknown error''"

text \<open>\<^verbatim>\<open>handleGetSecret(name)\<close>; \<open>None\<close> is \<^verbatim>\<open>undefined\<close>.\<close>

definition handleGetSecret :: "runtime \<Rightarrow> string option \<Rightarrow> world \<Rightarrow> response \<times> world" where
  "handleGetSecret rt name w =
    (case name of
       None \<Rightarrow> (Response_json (JObj [(''error'', JStr ''Secret name is required'')]) 400, w)
     | Some n \<Rightarrow>
         if n = [] then
           (Response_json (JObj [(''error'', JStr ''Secret name is required'')]) 400, w)
         else
           (case getSecret rt n w of
              (Inr v, w') \<Rightarrow> (Response_json (JObj [(''value'', v)]) 200, w')
            | (Inl e, w') \<Rightarrow>
                (Response_json (JObj [(''error'', JStr (error_text e))]) 500,
                 w'\<lparr>console := console w' @
                        [ConsoleError (''Error fetching secret '' @ [CHR 0x27] @ n @ [CHR 0x27] @ '':'') e]\<rparr>)))"

section \<open>The server (index.ts)\<close>

text \<open>\<^verbatim>\<open>s.split(sep)\<close> for a one-character separator.\<close>

fun js_split :: "char \<Rightarrow> string \<Rightarrow> string list" where
  "js_split sep [] = [[]]"
| "js_split sep (c # cs) =
    (if c = sep then [] # js_split sep cs
     else (case js_split sep cs of
             [] \<Rightarrow> [[c]]
           | t # ts \<Rightarrow> (c # t) # ts))"

text \<open>\<^verbatim>\<open>xs.pop()\<close>, the value only: \<^verbatim>\<open>undefined\<close> on an empty array.\<close>

definition js_pop :: "'a list \<Rightarrow> 'a option" where
  "js_pop xs = (if xs = [] then None else Some (last xs))"

definition startsWith :: "string \<Rightarrow> string \<Rightarrow> bool" where
  "startsWith s p = (take (length p) s = p)"

text \<open>
  The \<^verbatim>\<open>fetch\<close> handler, on \<^verbatim>\<open>new URL(req.url).pathname\<close> and with the \<^verbatim>\<open>configPath\<close> it
  closes over.
\<close>

definition fetch :: "runtime \<Rightarrow> string \<Rightarrow> string \<Rightarrow> world \<Rightarrow> response \<times> world" where
  "fetch rt configPath pathname w =
    (if pathname = ''/config.js'' then
       (\<lparr>status = 200, body = FileBody configPath,
         headers = [(''Content-Type'', ''application/javascript'')]\<rparr>, w)
     else if startsWith pathname ''/api/secrets/'' then
       handleGetSecret rt (js_pop (js_split CHR ''/'' pathname)) w
     else (\<lparr>status = 404, body = TextBody ''Not Found'', headers = []\<rparr>, w))"









section \<open>Concrete processes\<close>

text \<open>
  Three processes to evaluate the definitions on: one started with \<^verbatim>\<open>TEST_MODE=true\<close>,
  one without it whose external tool gives fixed answers, and one whose login is refused.
  \<open>item_record item\<close> is an answer of the tool whose \<^verbatim>\<open>data.content.itemData\<close> is
  the object \<open>item\<close>.
\<close>

definition empty_world :: world where
  "empty_world = \<lparr>console = [], cli_calls = []\<rparr>"

fun test_env :: "string \<Rightarrow> string option" where
  "test_env v = (if v = ''TEST_MODE'' then Some ''true'' else None)"

fun live_env :: "string \<Rightarrow> string option" where
  "live_env v = (if v = ''PROTON_EMAIL'' then Some ''user@example.com'' else None)"

definition item_record :: "(string \<times> jsval) list \<Rightarrow> jsval" where
  "item_record item =
    JObj [(''data'', JObj [(''content'', JObj [(''itemData'', JObj item)])])]"

fun canned_item_get :: "cli_call list \<Rightarrow> string \<Rightarrow> thrown + jsval" where
  "canned_item_get h name =
    (if name = ''api-key'' then Inr (item_record [(''password'', JStr ''hunter2'')])
     else if name = ''note'' then Inr (item_record [(''text'', JStr ''remember'')])
     else if name = ''X'' then Inr (item_record [(''username'', JStr ''someone'')])
     else if name = ''gone'' then Inr (JObj [(''data'', JObj [(''content'', JObj [])])])
     else if name = ''odd'' then Inl (NonError (JStr ''interrupted''))
     else Inl (ErrorInstance ''Failed with exit code 1''))"

fun login_accepts :: "cli_call list \<Rightarrow> string option \<Rightarrow> thrown option" where
  "login_accepts h e = None"

fun login_refuses :: "cli_call list \<Rightarrow> string option \<Rightarrow> thrown option" where
  "login_refuses h e = Some (ErrorInstance ''Failed with exit code 1'')"

fun no_file :: "string \<Rightarrow> bool" where
  "no_file p = False"

fun serve_binds :: "serve_options \<Rightarrow> thrown option" where
  "serve_binds opts = None"

definition test_runtime :: runtime where
  "test_runtime =
    \<lparr>process_env = test_env, pass_cli_item_get = canned_item_get,
     pass_cli_login = login_refuses, null_read_message = ''null is not an object'',
     existsSync = no_file, local_bundle_path = ''/srv/packages/config/dist/bundle.js'',
     bun_serve = serve_binds\<rparr>"

definition live_runtime :: runtime where
  "live_runtime =
    \<lparr>process_env = live_env, pass_cli_item_get = canned_item_get,
     pass_cli_login = login_accepts, null_read_message = ''null is not an object'',
     existsSync = no_file, local_bundle_path = ''/srv/packages/config/dist/bundle.js'',
     bun_serve = serve_binds\<rparr>"

definition locked_out_runtime :: runtime where
  "locked_out_runtime = live_runtime\<lparr>pass_cli_login := login_refuses\<rparr>"

section \<open>Unfolding the definitions\<close>

lemmas fixture_defs = empty_world_def test_runtime_def live_runtime_def locked_out_runtime_def
  item_record_def test_mode_def

lemmas gateway_defs = getSecret_def extract_secret_def item_data_opt_def item_data_field_def
  then_read_def then_opt_read_def index_object_def js_or_def mockSecrets_def object_prototype_def

section \<open>Splitting a path\<close>

text \<open>
  \<open>js_split\<close> distributes over a separator, so the last piece of a path is what follows
  its last slash.
\<close>

lemma js_split_nonempty: "js_split sep s \<noteq> []"
  by (induction s) (auto split: list.splits)

lemma js_split_no_sep: "sep \<notin> set s \<Longrightarrow> js_split sep s = [s]"
  by (induction s) auto

lemma js_split_append:
  "js_split sep (pre @ sep # rest) = js_split sep pre @ js_split sep rest"
proof (induction pre)
  case Nil
  show ?case by simp
next
  case (Cons c pre)
  obtain t ts where "js_split sep pre = t # ts"
    using js_split_nonempty [of sep pre] by (cases "js_split sep pre") auto
  with Cons show ?case by simp
qed

lemma js_pop_split_final:
  assumes "CHR ''/'' \<notin> set name"
  shows "js_pop (js_split CHR ''/'' (pre @ ''/'' @ name)) = Some name"
  using assms by (simp add: js_pop_def js_split_append js_split_nonempty js_split_no_sep)

lemma startsWith_iff: "startsWith s p \<longleftrightarrow> (\<exists>rest. s = p @ rest)"
  unfolding startsWith_def
  by (metis append_eq_conv_conj append_take_drop_id)

lemma final_token:
  assumes "CHR ''/'' \<in> set s"
  shows "\<exists>pre name. s = pre @ ''/'' @ name \<and> CHR ''/'' \<notin> set name"
  using split_list_last [OF assms] by auto

section \<open>The gateway, step by step\<close>

lemma getSecret_test_mode_succeeds:
  "test_mode rt \<Longrightarrow> \<exists>v. getSecret rt name w = (Inr v, w)"
  by (simp add: getSecret_def test_mode_def)

lemma getSecret_live_world:
  "\<not> test_mode rt \<Longrightarrow>
   snd (getSecret rt name w) = w\<lparr>cli_calls := cli_calls w @ [ItemGet name]\<rparr>"
  by (simp add: getSecret_def test_mode_def split: sum.splits)

lemma getSecret_live_answer:
  "\<not> test_mode rt \<Longrightarrow> pass_cli_item_get rt (cli_calls w) name = Inr result \<Longrightarrow>
   fst (getSecret rt name w) = extract_secret rt name result"
  by (simp add: getSecret_def test_mode_def)

lemma index_object_own: "map_of ps k = Some v \<Longrightarrow> index_object ps k = v"
  by (simp add: index_object_def)

lemma index_object_program_names:
  "index_object ps ''data'' = (case map_of ps ''data'' of None \<Rightarrow> JUndefined | Some v \<Rightarrow> v)"
  "index_object ps ''content'' = (case map_of ps ''content'' of None \<Rightarrow> JUndefined | Some v \<Rightarrow> v)"
  "index_object ps ''itemData'' = (case map_of ps ''itemData'' of None \<Rightarrow> JUndefined | Some v \<Rightarrow> v)"
  "index_object ps ''password'' = (case map_of ps ''password'' of None \<Rightarrow> JUndefined | Some v \<Rightarrow> v)"
  "index_object ps ''text'' = (case map_of ps ''text'' of None \<Rightarrow> JUndefined | Some v \<Rightarrow> v)"
  by (simp_all add: index_object_def object_prototype_def split: option.splits)

lemma item_data_opt_nested:
  assumes "map_of rec ''data'' = Some (JObj dat)" and "map_of dat ''content'' = Some (JObj con)"
  shows "item_data_opt rt (JObj rec) = Inr (index_object con ''itemData'')"
  using assms by (simp add: item_data_opt_def then_opt_read_def index_object_own)

lemma item_data_field_nested:
  assumes "map_of rec ''data'' = Some (JObj dat)" and "map_of dat ''content'' = Some (JObj con)"
    and "map_of con ''itemData'' = Some (JObj item)"
  shows "item_data_field rt (JObj rec) k = Inr (index_object item k)"
  using assms by (simp add: item_data_field_def then_read_def index_object_own)

lemma extract_secret_neither:
  assumes "map_of rec ''data'' = Some (JObj dat)" and "map_of dat ''content'' = Some (JObj con)"
    and "map_of con ''itemData'' = Some (JObj item)"
    and "map_of item ''password'' = None" and "map_of item ''text'' = None"
  shows "extract_secret rt name (JObj rec) = Inr (JStr '''')"
  using assms
  by (simp add: extract_secret_def item_data_opt_nested item_data_field_nested
      index_object_program_names js_or_def)

lemma extract_secret_no_item_data:
  assumes "map_of rec ''data'' = Some (JObj dat)" and "map_of dat ''content'' = Some (JObj con)"
    and "map_of con ''itemData'' = None"
  shows "extract_secret rt name (JObj rec) = Inl (ErrorInstance (not_found_message name))"
  using assms
  by (simp add: extract_secret_def item_data_opt_nested index_object_program_names)

lemma inherited_names_eq:
  "inherited_names =
    [''constructor'', ''__defineGetter__'', ''__defineSetter__'', ''hasOwnProperty'',
     ''__lookupGetter__'', ''__lookupSetter__'', ''isPrototypeOf'', ''propertyIsEnumerable'',
     ''toString'', ''valueOf'', ''__proto__'', ''toLocaleString'']"
  by (simp add: inherited_names_def object_prototype_def)

lemma map_of_not_inherited:
  "name \<notin> set inherited_names \<Longrightarrow> map_of object_prototype name = None"
  by (simp add: inherited_names_def map_of_eq_None_iff)

section \<open>The handler and the dispatcher, step by step\<close>

lemma handleGetSecret_Inr:
  "name \<noteq> [] \<Longrightarrow> fst (getSecret rt name w) = Inr v \<Longrightarrow>
   fst (handleGetSecret rt (Some name) w) = Response_json (JObj [(''value'', v)]) 200"
  by (cases "getSecret rt name w") (simp add: handleGetSecret_def)

lemma handleGetSecret_Inl:
  "name \<noteq> [] \<Longrightarrow> fst (getSecret rt name w) = Inl e \<Longrightarrow>
   fst (handleGetSecret rt (Some name) w) =
     Response_json (JObj [(''error'', JStr (error_text e))]) 500"
  by (cases "getSecret rt name w") (simp add: handleGetSecret_def)

lemma handleGetSecret_empty:
  "handleGetSecret rt (Some []) w =
     (\<lparr>status = 400, body = JsonBody (JObj [(''error'', JStr ''Secret name is required'')]),
       headers = []\<rparr>, w)"
  by (simp add: handleGetSecret_def Response_json_def)

lemma handleGetSecret_test_mode:
  assumes "test_mode rt"
  shows "snd (handleGetSecret rt name w) = w"
    and "fst (handleGetSecret rt name w') = fst (handleGetSecret rt name w)"
  using assms
  by (auto simp: handleGetSecret_def getSecret_def test_mode_def split: option.splits)

lemma fetch_secret_path:
  "startsWith pathname ''/api/secrets/'' \<Longrightarrow>
   fetch rt configPath pathname w =
     handleGetSecret rt (js_pop (js_split CHR ''/'' pathname)) w"
  by (auto simp: fetch_def startsWith_def)

lemma live_api_key:
  "fst (getSecret live_runtime ''api-key'' empty_world) = Inr (JStr ''hunter2'')"
  by (simp add: fixture_defs gateway_defs)

lemma live_gone:
  "fst (getSecret live_runtime ''gone'' empty_world)
     = Inl (ErrorInstance (not_found_message ''gone''))"
  by (simp add: fixture_defs gateway_defs)

lemma live_missing:
  "fst (getSecret live_runtime ''missing'' empty_world)
     = Inl (ErrorInstance ''Failed with exit code 1'')"
  by (simp add: fixture_defs gateway_defs)

lemma live_odd:
  "fst (getSecret live_runtime ''odd'' empty_world) = Inl (NonError (JStr ''interrupted''))"
  by (simp add: fixture_defs gateway_defs)

section \<open>The specified behaviour\<close>

text \<open>
  C1, as stated, fails. Outside test mode the tool answers for \<^verbatim>\<open>X\<close> with a record whose
  \<^verbatim>\<open>itemData\<close> has a \<^verbatim>\<open>username\<close> and neither \<^verbatim>\<open>password\<close> nor \<^verbatim>\<open>text\<close>.
  \<open>getSecret\<close> does not fail: the final \<^verbatim>\<open>|| ''\<close> makes it resolve to the empty string,
  and the handler answers 200 with an empty value.
\<close>

theorem getSecret_payload_without_fields_counterexample:
  "\<not> test_mode live_runtime \<and>
   pass_cli_item_get live_runtime (cli_calls empty_world) ''X''
     = Inr (item_record [(''username'', JStr ''someone'')]) \<and>
   fst (getSecret live_runtime ''X'' empty_world) = Inr (JStr '''') \<and>
   fst (handleGetSecret live_runtime (Some ''X'') empty_world)
     = \<lparr>status = 200, body = JsonBody (JObj [(''value'', JStr '''')]), headers = []\<rparr>"
  by (simp add: fixture_defs gateway_defs handleGetSecret_def Response_json_def)

text \<open>
  C1, amended. Outside test mode, let the tool answer with an object whose \<^verbatim>\<open>data\<close> is an
  object whose \<^verbatim>\<open>content\<close> is an object. If \<^verbatim>\<open>content.itemData\<close> is an object with neither
  a \<^verbatim>\<open>password\<close> nor a \<^verbatim>\<open>text\<close> field, \<open>getSecret\<close> succeeds with the empty string and
  the handler answers 200 with \<^verbatim>\<open>{value: ''}\<close>. If \<^verbatim>\<open>content\<close> has no \<^verbatim>\<open>itemData\<close>,
  \<open>getSecret\<close> fails with the not-found error, and the handler answers 500 with that
  message, which is not empty.
\<close>

theorem getSecret_payload_without_password_or_text:
  assumes "\<not> test_mode rt" and "name \<noteq> []"
    and "pass_cli_item_get rt (cli_calls w) name = Inr (JObj rec)"
    and "map_of rec ''data'' = Some (JObj dat)"
    and "map_of dat ''content'' = Some (JObj con)"
  shows
    "(\<forall>item. map_of con ''itemData'' = Some (JObj item) \<and>
        map_of item ''password'' = None \<and> map_of item ''text'' = None \<longrightarrow>
        fst (getSecret rt name w) = Inr (JStr '''') \<and>
        fst (handleGetSecret rt (Some name) w) =
          \<lparr>status = 200, body = JsonBody (JObj [(''value'', JStr '''')]), headers = []\<rparr>) \<and>
     (map_of con ''itemData'' = None \<longrightarrow>
        fst (getSecret rt name w) = Inl (ErrorInstance (not_found_message name)) \<and>
        fst (handleGetSecret rt (Some name) w) =
          \<lparr>status = 500, body = JsonBody (JObj [(''error'', JStr (not_found_message name))]),
           headers = []\<rparr> \<and>
        not_found_message name \<noteq> [])"
proof (intro conjI allI impI)
  fix item
  assume "map_of con ''itemData'' = Some (JObj item) \<and>
        map_of item ''password'' = None \<and> map_of item ''text'' = None"
  then have "extract_secret rt name (JObj rec) = Inr (JStr '''')"
    using extract_secret_neither [OF assms(4) assms(5)] by blast
  then show g: "fst (getSecret rt name w) = Inr (JStr '''')"
    using getSecret_live_answer [OF assms(1) assms(3)] by simp
  show "fst (handleGetSecret rt (Some name) w) =
          \<lparr>status = 200, body = JsonBody (JObj [(''value'', JStr '''')]), headers = []\<rparr>"
    using handleGetSecret_Inr [OF assms(2) g] by (simp add: Response_json_def)
next
  assume "map_of con ''itemData'' = None"
  then have "extract_secret rt name (JObj rec) = Inl (ErrorInstance (not_found_message name))"
    using extract_secret_no_item_data [OF assms(4) assms(5)] by blast
  then show g: "fst (getSecret rt name w) = Inl (ErrorInstance (not_found_message name))"
    using getSecret_live_answer [OF assms(1) assms(3)] by simp
  show "fst (handleGetSecret rt (Some name) w) =
          \<lparr>status = 500, body = JsonBody (JObj [(''error'', JStr (not_found_message name))]),
           headers = []\<rparr>"
    using handleGetSecret_Inl [OF assms(2) g] by (simp add: Response_json_def)
  show "not_found_message name \<noteq> []"
    by (simp add: not_found_message_def)
qed

text \<open>
  C1 on the live process: \<^verbatim>\<open>X\<close> has an \<^verbatim>\<open>itemData\<close> without password and text,
  \<^verbatim>\<open>gone\<close> has no \<^verbatim>\<open>itemData\<close>.
\<close>

theorem getSecret_payload_without_password_or_text_witness:
  "\<not> test_mode live_runtime \<and> ''X'' \<noteq> [] \<and> ''gone'' \<noteq> [] \<and>
   pass_cli_item_get live_runtime (cli_calls empty_world) ''X''
     = Inr (item_record [(''username'', JStr ''someone'')]) \<and>
   fst (getSecret live_runtime ''X'' empty_world) = Inr (JStr '''') \<and>
   pass_cli_item_get live_runtime (cli_calls empty_world) ''gone''
     = Inr (JObj [(''data'', JObj [(''content'', JObj [])])]) \<and>
   fst (handleGetSecret live_runtime (Some ''gone'') empty_world) =
     \<lparr>status = 500,
      body = JsonBody (JObj [(''error'', JStr ''Secret 'gone' not found in Proton Pass'')]),
      headers = []\<rparr>"
proof -
  have l: "\<not> test_mode live_runtime" by (simp add: fixture_defs)
  have x: "''X'' \<noteq> []" and g: "''gone'' \<noteq> []" by simp_all
  have px: "pass_cli_item_get live_runtime (cli_calls empty_world) ''X''
     = Inr (JObj [(''data'', JObj [(''content'',
          JObj [(''itemData'', JObj [(''username'', JStr ''someone'')])])])])"
    by (simp add: fixture_defs)
  have pg: "pass_cli_item_get live_runtime (cli_calls empty_world) ''gone''
     = Inr (JObj [(''data'', JObj [(''content'', JObj [])])])"
    by (simp add: fixture_defs)
  have d1: "map_of [(''data'', JObj [(''content'',
          JObj [(''itemData'', JObj [(''username'', JStr ''someone'')])])])] ''data''
      = Some (JObj [(''content'', JObj [(''itemData'', JObj [(''username'', JStr ''someone'')])])])"
    by simp
  have c1: "map_of [(''content'', JObj [(''itemData'', JObj [(''username'', JStr ''someone'')])])]
       ''content'' = Some (JObj [(''itemData'', JObj [(''username'', JStr ''someone'')])])"
    by simp
  have d2: "map_of [(''data'', JObj [(''content'', JObj [])])] ''data''
      = Some (JObj [(''content'', JObj [])])"
    by simp
  have c2: "map_of [(''content'', JObj [])] ''content'' = Some (JObj [])"
    by simp
  have "fst (getSecret live_runtime ''X'' empty_world) = Inr (JStr '''')"
    using getSecret_payload_without_password_or_text [OF l x px d1 c1] by simp
  moreover have "fst (handleGetSecret live_runtime (Some ''gone'') empty_world) =
     \<lparr>status = 500,
      body = JsonBody (JObj [(''error'', JStr ''Secret 'gone' not found in Proton Pass'')]),
      headers = []\<rparr>"
    using getSecret_payload_without_password_or_text [OF l g pg d2 c2]
    by (simp add: not_found_message_def)
  ultimately show ?thesis using l px pg by (simp add: item_record_def)
qed

text \<open>
  C2, as stated, fails. The fixed mapping has a second entry: in test mode the name
  \<^verbatim>\<open>test-secret\<close>, which is not \<^verbatim>\<open>openrouter-api-key\<close>, resolves to \<^verbatim>\<open>test-value\<close> and
  not to the empty string.
\<close>

theorem getSecret_test_mode_other_name_counterexample:
  "test_mode test_runtime \<and>
   ''test-secret'' \<noteq> ''openrouter-api-key'' \<and>
   fst (getSecret test_runtime ''test-secret'' empty_world) = Inr (JStr ''test-value'') \<and>
   fst (getSecret test_runtime ''test-secret'' empty_world) \<noteq> Inr (JStr '''')"
  by (simp add: fixture_defs getSecret_def index_object_def js_or_def mockSecrets_def)

text \<open>
  C2, amended. In test mode \<open>getSecret\<close> resolves \<^verbatim>\<open>openrouter-api-key\<close> to
  \<^verbatim>\<open>test-api-key-12345\<close> and \<^verbatim>\<open>test-secret\<close> to \<^verbatim>\<open>test-value\<close>, and every other name
  that is not a property name inherited from \<^verbatim>\<open>Object.prototype\<close> to the empty string.
\<close>

theorem getSecret_test_mode_mapping:
  assumes "test_mode rt"
  shows "fst (getSecret rt ''openrouter-api-key'' w) = Inr (JStr ''test-api-key-12345'') \<and>
         fst (getSecret rt ''test-secret'' w) = Inr (JStr ''test-value'') \<and>
         (name \<noteq> ''openrouter-api-key'' \<and> name \<noteq> ''test-secret'' \<and>
          name \<notin> set inherited_names \<longrightarrow>
            fst (getSecret rt name w) = Inr (JStr ''''))"
  using assms
  by (simp add: test_mode_def getSecret_def index_object_def js_or_def mockSecrets_def
      map_of_not_inherited)

text \<open>C2 on the test-mode process, with \<^verbatim>\<open>unknown-key\<close> as the other name.\<close>

theorem getSecret_test_mode_mapping_witness:
  "test_mode test_runtime \<and>
   fst (getSecret test_runtime ''openrouter-api-key'' empty_world)
     = Inr (JStr ''test-api-key-12345'') \<and>
   fst (getSecret test_runtime ''test-secret'' empty_world) = Inr (JStr ''test-value'') \<and>
   ''unknown-key'' \<notin> set inherited_names \<and>
   fst (getSecret test_runtime ''unknown-key'' empty_world) = Inr (JStr '''')"
proof -
  have t: "test_mode test_runtime" by (simp add: fixture_defs)
  have n: "''unknown-key'' \<notin> set inherited_names" by (simp add: inherited_names_eq)
  show ?thesis
    using t n getSecret_test_mode_mapping [OF t, of empty_world "''unknown-key''"] by simp
qed

text \<open>
  C3. For a non-empty name the handler answers 200 with the object \<^verbatim>\<open>{value: v}\<close> when
  \<open>getSecret\<close> resolves to \<open>v\<close>. Whatever \<open>getSecret\<close> is rejected with, the handler
  answers 500 with the object \<^verbatim>\<open>{error: msg}\<close>, where \<open>msg\<close> is the message of the
  rejection when that is an \<^verbatim>\<open>Error\<close> (the not-found error of the gateway, an error of the
  external tool) and \<^verbatim>\<open>Unknown error\<close> otherwise. The handler is a total function into
  responses: no outcome of the gateway leaves it without one, and the status is 200 or 500.
\<close>

theorem handleGetSecret_outcomes:
  assumes "name \<noteq> []"
  shows "(\<forall>v. fst (getSecret rt name w) = Inr v \<longrightarrow>
            fst (handleGetSecret rt (Some name) w) =
              \<lparr>status = 200, body = JsonBody (JObj [(''value'', v)]), headers = []\<rparr>) \<and>
         (\<forall>e. fst (getSecret rt name w) = Inl e \<longrightarrow>
            fst (handleGetSecret rt (Some name) w) =
              \<lparr>status = 500,
               body = JsonBody (JObj [(''error'',
                 JStr (case e of ErrorInstance m \<Rightarrow> m | NonError u \<Rightarrow> ''Unknown error''))]),
               headers = []\<rparr>) \<and>
         (\<forall>m. fst (getSecret rt name w) = Inl (ErrorInstance m) \<longrightarrow>
            fst (handleGetSecret rt (Some name) w) =
              \<lparr>status = 500, body = JsonBody (JObj [(''error'', JStr m)]), headers = []\<rparr>) \<and>
         status (fst (handleGetSecret rt (Some name) w)) \<in> {200, 500}"
proof (intro conjI allI impI)
  fix v assume "fst (getSecret rt name w) = Inr v"
  then show "fst (handleGetSecret rt (Some name) w) =
      \<lparr>status = 200, body = JsonBody (JObj [(''value'', v)]), headers = []\<rparr>"
    using handleGetSecret_Inr [OF assms] by (simp add: Response_json_def)
next
  fix e assume "fst (getSecret rt name w) = Inl e"
  then have "fst (handleGetSecret rt (Some name) w) =
      \<lparr>status = 500, body = JsonBody (JObj [(''error'', JStr (error_text e))]), headers = []\<rparr>"
    using handleGetSecret_Inl [OF assms] by (simp add: Response_json_def)
  then show "fst (handleGetSecret rt (Some name) w) =
      \<lparr>status = 500,
       body = JsonBody (JObj [(''error'',
         JStr (case e of ErrorInstance m \<Rightarrow> m | NonError u \<Rightarrow> ''Unknown error''))]),
       headers = []\<rparr>"
    by (cases e) simp_all
next
  fix m assume "fst (getSecret rt name w) = Inl (ErrorInstance m)"
  then show "fst (handleGetSecret rt (Some name) w) =
      \<lparr>status = 500, body = JsonBody (JObj [(''error'', JStr m)]), headers = []\<rparr>"
    using handleGetSecret_Inl [OF assms] by (simp add: Response_json_def)
next
  show "status (fst (handleGetSecret rt (Some name) w)) \<in> {200, 500}"
  proof (cases "fst (getSecret rt name w)")
    case (Inl e)
    then show ?thesis using handleGetSecret_Inl [OF assms] by (simp add: Response_json_def)
  next
    case (Inr v)
    then show ?thesis using handleGetSecret_Inr [OF assms] by (simp add: Response_json_def)
  qed
qed

text \<open>
  C3 on the live process: \<^verbatim>\<open>api-key\<close> is found; for \<^verbatim>\<open>missing\<close> the tool exits with an
  error, whose message is the body; for \<^verbatim>\<open>gone\<close> the gateway does not find the secret, and
  its not-found message is the body.
\<close>

theorem handleGetSecret_outcomes_witness:
  "''api-key'' \<noteq> [] \<and> ''missing'' \<noteq> [] \<and> ''gone'' \<noteq> [] \<and>
   fst (getSecret live_runtime ''api-key'' empty_world) = Inr (JStr ''hunter2'') \<and>
   fst (handleGetSecret live_runtime (Some ''api-key'') empty_world) =
     \<lparr>status = 200, body = JsonBody (JObj [(''value'', JStr ''hunter2'')]), headers = []\<rparr> \<and>
   fst (getSecret live_runtime ''missing'' empty_world)
     = Inl (ErrorInstance ''Failed with exit code 1'') \<and>
   fst (handleGetSecret live_runtime (Some ''missing'') empty_world) =
     \<lparr>status = 500, body = JsonBody (JObj [(''error'', JStr ''Failed with exit code 1'')]),
      headers = []\<rparr> \<and>
   fst (getSecret live_runtime ''gone'' empty_world)
     = Inl (ErrorInstance ''Secret 'gone' not found in Proton Pass'') \<and>
   fst (handleGetSecret live_runtime (Some ''gone'') empty_world) =
     \<lparr>status = 500,
      body = JsonBody (JObj [(''error'', JStr ''Secret 'gone' not found in Proton Pass'')]),
      headers = []\<rparr>"
proof -
  have a: "''api-key'' \<noteq> []" and b: "''missing'' \<noteq> []" and c: "''gone'' \<noteq> []"
    by simp_all
  have g: "fst (getSecret live_runtime ''gone'' empty_world)
     = Inl (ErrorInstance ''Secret 'gone' not found in Proton Pass'')"
    using live_gone by (simp add: not_found_message_def)
  have A: "fst (handleGetSecret live_runtime (Some ''api-key'') empty_world) =
     \<lparr>status = 200, body = JsonBody (JObj [(''value'', JStr ''hunter2'')]), headers = []\<rparr>"
    using handleGetSecret_outcomes [OF a, of live_runtime empty_world] live_api_key by blast
  have B: "fst (handleGetSecret live_runtime (Some ''missing'') empty_world) =
     \<lparr>status = 500, body = JsonBody (JObj [(''error'', JStr ''Failed with exit code 1'')]),
      headers = []\<rparr>"
    using handleGetSecret_outcomes [OF b, of live_runtime empty_world] live_missing by blast
  have C: "fst (handleGetSecret live_runtime (Some ''gone'') empty_world) =
     \<lparr>status = 500,
      body = JsonBody (JObj [(''error'', JStr ''Secret 'gone' not found in Proton Pass'')]),
      headers = []\<rparr>"
    using handleGetSecret_outcomes [OF c, of live_runtime empty_world] g by blast
  from a b c live_api_key live_missing g A B C show ?thesis by blast
qed

text \<open>
  C4. When the name is \<^verbatim>\<open>undefined\<close> or the empty string the handler answers 400 with
  exactly \<^verbatim>\<open>{error: 'Secret name is required'}\<close>. The answer does not depend on the
  runtime and the world is left as it was: the gateway is not called, so the external
  tool is not run and nothing is logged.
\<close>

theorem handleGetSecret_name_required:
  assumes "name = None \<or> name = Some []"
  shows "handleGetSecret rt name w =
           (\<lparr>status = 400,
             body = JsonBody (JObj [(''error'', JStr ''Secret name is required'')]),
             headers = []\<rparr>, w)"
  using assms by (auto simp: handleGetSecret_def Response_json_def)

text \<open>C4 on the live process, for both ways of giving no name.\<close>

theorem handleGetSecret_name_required_witness:
  "handleGetSecret live_runtime None empty_world =
     (\<lparr>status = 400,
       body = JsonBody (JObj [(''error'', JStr ''Secret name is required'')]),
       headers = []\<rparr>, empty_world) \<and>
   handleGetSecret live_runtime (Some []) empty_world =
     (\<lparr>status = 400,
       body = JsonBody (JObj [(''error'', JStr ''Secret name is required'')]),
       headers = []\<rparr>, empty_world)"
  using handleGetSecret_name_required [of None live_runtime empty_world]
    handleGetSecret_name_required [of "Some []" live_runtime empty_world]
  by simp

text \<open>
  C5. A path that starts with \<^verbatim>\<open>/api/secrets/\<close> splits as \<open>pre @ ''/'' @ name\<close> where
  \<open>name\<close> has no slash; this \<open>name\<close> is what \<^verbatim>\<open>split('/').pop()\<close> gives, and
  \<open>fetch\<close> answers with \<open>handleGetSecret\<close> on it. When the path ends in a slash the name is
  empty and the answer is the 400 response.
\<close>

theorem fetch_secret_route:
  assumes "startsWith pathname ''/api/secrets/''"
  shows "\<exists>pre name.
           pathname = pre @ ''/'' @ name \<and> CHR ''/'' \<notin> set name \<and>
           js_pop (js_split CHR ''/'' pathname) = Some name \<and>
           fetch rt configPath pathname w = handleGetSecret rt (Some name) w \<and>
           (last pathname = CHR ''/'' \<longrightarrow>
              name = [] \<and>
              fetch rt configPath pathname w =
                (\<lparr>status = 400,
                  body = JsonBody (JObj [(''error'', JStr ''Secret name is required'')]),
                  headers = []\<rparr>, w))"
proof -
  from assms obtain rest where "pathname = ''/api/secrets/'' @ rest"
    unfolding startsWith_iff by blast
  then have "CHR ''/'' \<in> set pathname" by simp
  then obtain pre name where d: "pathname = pre @ ''/'' @ name" and n: "CHR ''/'' \<notin> set name"
    using final_token by blast
  have p: "js_pop (js_split CHR ''/'' pathname) = Some name"
    unfolding d using n by (rule js_pop_split_final)
  have f: "fetch rt configPath pathname w = handleGetSecret rt (Some name) w"
    using fetch_secret_path [OF assms, of rt configPath w] p by simp
  have e: "name = []" if l: "last pathname = CHR ''/''"
  proof (rule ccontr)
    assume ne: "name \<noteq> []"
    have "last pathname = last name" unfolding d using ne by simp
    then have "CHR ''/'' = last name" using l by simp
    then show False using n last_in_set [OF ne] by simp
  qed
  have g: "fetch rt configPath pathname w =
      (\<lparr>status = 400,
        body = JsonBody (JObj [(''error'', JStr ''Secret name is required'')]),
        headers = []\<rparr>, w)" if l: "last pathname = CHR ''/''"
    using f e [OF l] handleGetSecret_empty [of rt w] by simp
  from d n p f e g show ?thesis by blast
qed

text \<open>C5 on the test-mode process, for the path \<^verbatim>\<open>/api/secrets/\<close>.\<close>

theorem fetch_secret_route_witness:
  "startsWith ''/api/secrets/'' ''/api/secrets/'' \<and>
   fetch test_runtime ''/app/static/config.js'' ''/api/secrets/'' empty_world =
     (\<lparr>status = 400,
       body = JsonBody (JObj [(''error'', JStr ''Secret name is required'')]),
       headers = []\<rparr>, empty_world)"
proof -
  have a: "startsWith ''/api/secrets/'' ''/api/secrets/''" by (simp add: startsWith_def)
  have l: "last ''/api/secrets/'' = CHR ''/''" by simp
  show ?thesis
    using a l fetch_secret_route [OF a, of test_runtime "''/app/static/config.js''" empty_world]
    by auto
qed

text \<open>
  C6. A path that is not \<^verbatim>\<open>/config.js\<close> and does not start with \<^verbatim>\<open>/api/secrets/\<close> gets
  status 404 with the text body \<^verbatim>\<open>Not Found\<close>, and nothing else happens.
\<close>

theorem fetch_not_found:
  assumes "pathname \<noteq> ''/config.js''" and "\<not> startsWith pathname ''/api/secrets/''"
  shows "fetch rt configPath pathname w =
           (\<lparr>status = 404, body = TextBody ''Not Found'', headers = []\<rparr>, w)"
  using assms by (simp add: fetch_def)

text \<open>C6 on the test-mode process, for the path \<^verbatim>\<open>/nonexistent\<close>.\<close>

theorem fetch_not_found_witness:
  "''/nonexistent'' \<noteq> ''/config.js'' \<and> \<not> startsWith ''/nonexistent'' ''/api/secrets/'' \<and>
   fetch test_runtime ''/app/static/config.js'' ''/nonexistent'' empty_world =
     (\<lparr>status = 404, body = TextBody ''Not Found'', headers = []\<rparr>, empty_world)"
proof -
  have a: "''/nonexistent'' \<noteq> ''/config.js''" by simp
  have b: "\<not> startsWith ''/nonexistent'' ''/api/secrets/''" by (simp add: startsWith_def)
  show ?thesis using a b fetch_not_found [OF a b] by simp
qed

text \<open>
  C7 at the name \<^verbatim>\<open>toString\<close>. In test mode \<^verbatim>\<open>mockSecrets[name]\<close> finds the function
  that every object inherits from \<^verbatim>\<open>Object.prototype\<close>; it is truthy, so
  \<^verbatim>\<open>mockSecrets[name] || ''\<close> is that function. \<open>getSecret\<close> does not fail, but it resolves
  to the function and not to the empty string, and \<^verbatim>\<open>GET /api/secrets/toString\<close> is answered
  200 with the function as the value handed to \<^verbatim>\<open>Response.json\<close>.
\<close>

theorem getSecret_test_mode_inherited_name:
  "test_mode test_runtime \<and>
   getSecret test_runtime ''toString'' empty_world
     = (Inr (JBuiltin ''Object.prototype.toString''), empty_world) \<and>
   fst (fetch test_runtime ''/app/static/config.js'' ''/api/secrets/toString'' empty_world)
     = \<lparr>status = 200,
        body = JsonBody (JObj [(''value'', JBuiltin ''Object.prototype.toString'')]),
        headers = []\<rparr>"
  by (simp add: fixture_defs gateway_defs fetch_def startsWith_def js_pop_def
      handleGetSecret_def Response_json_def)

text \<open>
  C8. In test mode handling a secret request leaves the world as it was, the response
  does not depend on the world, and so handling the same name (or the same path under
  \<^verbatim>\<open>/api/secrets/\<close>) a second time gives the same response and the same world.
\<close>

theorem secret_request_idempotent:
  assumes "test_mode rt"
  shows "snd (handleGetSecret rt name w) = w \<and>
         handleGetSecret rt name (snd (handleGetSecret rt name w)) = handleGetSecret rt name w \<and>
         fst (handleGetSecret rt name w') = fst (handleGetSecret rt name w) \<and>
         (startsWith pathname ''/api/secrets/'' \<longrightarrow>
            snd (fetch rt configPath pathname w) = w \<and>
            fetch rt configPath pathname (snd (fetch rt configPath pathname w))
              = fetch rt configPath pathname w \<and>
            fst (fetch rt configPath pathname w') = fst (fetch rt configPath pathname w))"
  using handleGetSecret_test_mode [OF assms] by (simp add: fetch_secret_path)

text \<open>C8 on the test-mode process, for \<^verbatim>\<open>openrouter-api-key\<close> asked twice.\<close>

theorem secret_request_idempotent_witness:
  "test_mode test_runtime \<and> startsWith ''/api/secrets/openrouter-api-key'' ''/api/secrets/'' \<and>
   handleGetSecret test_runtime (Some ''openrouter-api-key'')
       (snd (handleGetSecret test_runtime (Some ''openrouter-api-key'') empty_world))
     = handleGetSecret test_runtime (Some ''openrouter-api-key'') empty_world \<and>
   fetch test_runtime ''/app/static/config.js'' ''/api/secrets/openrouter-api-key''
       (snd (fetch test_runtime ''/app/static/config.js'' ''/api/secrets/openrouter-api-key''
              empty_world))
     = fetch test_runtime ''/app/static/config.js'' ''/api/secrets/openrouter-api-key''
         empty_world"
proof -
  have t: "test_mode test_runtime" by (simp add: fixture_defs)
  have s: "startsWith ''/api/secrets/openrouter-api-key'' ''/api/secrets/''"
    by (simp add: startsWith_def)
  show ?thesis
    using t s
      secret_request_idempotent [OF t, of "Some ''openrouter-api-key''" empty_world empty_world
        "''/api/secrets/openrouter-api-key''" "''/app/static/config.js''"]
    by simp
qed



text \<open>
  C10. For a non-empty name, when \<open>getSecret\<close> is rejected with an \<^verbatim>\<open>Error\<close> the 500 body
  is \<^verbatim>\<open>{error: m}\<close> with \<open>m\<close> its message; when it is rejected with anything else the body
  is \<^verbatim>\<open>{error: 'Unknown error'}\<close>. Either way the body is an object with the one string
  field \<^verbatim>\<open>error\<close>.
\<close>

theorem handleGetSecret_error_message:
  assumes "name \<noteq> []"
  shows "(\<forall>m. fst (getSecret rt name w) = Inl (ErrorInstance m) \<longrightarrow>
            fst (handleGetSecret rt (Some name) w) =
              \<lparr>status = 500, body = JsonBody (JObj [(''error'', JStr m)]), headers = []\<rparr>) \<and>
         (\<forall>v. fst (getSecret rt name w) = Inl (NonError v) \<longrightarrow>
            fst (handleGetSecret rt (Some name) w) =
              \<lparr>status = 500, body = JsonBody (JObj [(''error'', JStr ''Unknown error'')]),
               headers = []\<rparr>)"
  using handleGetSecret_Inl [OF assms, of rt w] by (simp add: Response_json_def)

text \<open>
  C10 on the live process: \<^verbatim>\<open>missing\<close> is rejected with an \<^verbatim>\<open>Error\<close>, \<^verbatim>\<open>odd\<close> with a
  string.
\<close>

theorem handleGetSecret_error_message_witness:
  "''missing'' \<noteq> [] \<and> ''odd'' \<noteq> [] \<and>
   fst (getSecret live_runtime ''missing'' empty_world)
     = Inl (ErrorInstance ''Failed with exit code 1'') \<and>
   fst (handleGetSecret live_runtime (Some ''missing'') empty_world) =
     \<lparr>status = 500, body = JsonBody (JObj [(''error'', JStr ''Failed with exit code 1'')]),
      headers = []\<rparr> \<and>
   fst (getSecret live_runtime ''odd'' empty_world) = Inl (NonError (JStr ''interrupted'')) \<and>
   fst (handleGetSecret live_runtime (Some ''odd'') empty_world) =
     \<lparr>status = 500, body = JsonBody (JObj [(''error'', JStr ''Unknown error'')]),
      headers = []\<rparr>"
proof -
  have a: "''missing'' \<noteq> []" and b: "''odd'' \<noteq> []" by simp_all
  show ?thesis
    using handleGetSecret_error_message [OF a, of live_runtime empty_world]
      handleGetSecret_error_message [OF b, of live_runtime empty_world]
      live_missing live_odd
    by simp
qed

end
